theory Spec2Isabelle
  imports Complex_Main "HOL-Library.Char_ord" "HOL-Library.List_Lexorder" "HOL-Library.Multiset"
begin

section \<open>Text: Python strings and \<open>str.strip\<close>\<close>

text \<open>
  Form fields are Python strings. A string is modelled as a \<open>char list\<close> whose characters
  are the code points below 256; the order on strings is the lexicographic order on code points
  (the storage's default binary collation).
\<close>

definition code :: "char \<Rightarrow> nat" where
  "code c = of_char c"

text \<open>\<open>str.isspace\<close> on one character, for the code points below 256.\<close>

definition py_isspace :: "char \<Rightarrow> bool" where
  "py_isspace c =
     ((9 \<le> code c \<and> code c \<le> 13) \<or> (28 \<le> code c \<and> code c \<le> 32)
      \<or> code c = 133 \<or> code c = 160)"

text \<open>\<open>s.strip()\<close>: drop the whitespace at both ends.\<close>

definition strip :: "string \<Rightarrow> string" where
  "strip s = rev (dropWhile py_isspace (rev (dropWhile py_isspace s)))"

section \<open>Numbers: Python floats and \<open>float(str)\<close>\<close>

text \<open>
  A Python float is an IEEE 754 binary64 value. A finite one is modelled by its exact
  rational value (the sign of zero is not represented: no comparison of the program observes
  it); the two infinities and NaN are constructors of their own.
\<close>

datatype pyfloat = Finite rat | PosInf | NegInf | NaN

text \<open>\<open>x < n\<close> and \<open>x > n\<close> for a float \<open>x\<close> and an integer \<open>n\<close>: every comparison
  with NaN is false.\<close>

fun float_lt :: "pyfloat \<Rightarrow> int \<Rightarrow> bool" where
  "float_lt (Finite q) n = (q < of_int n)"
| "float_lt PosInf n = False"
| "float_lt NegInf n = True"
| "float_lt NaN n = False"

fun float_gt :: "pyfloat \<Rightarrow> int \<Rightarrow> bool" where
  "float_gt (Finite q) n = (q > of_int n)"
| "float_gt PosInf n = True"
| "float_gt NegInf n = False"
| "float_gt NaN n = False"

subsection \<open>Rounding a rational to binary64\<close>

text \<open>The number of binary digits of a positive integer (\<open>int.bit_length\<close>).\<close>

function bit_length :: "int \<Rightarrow> int" where
  "bit_length n = (if n \<le> 0 then 0 else 1 + bit_length (n div 2))"
  by pat_completeness auto
termination
  by (relation "measure nat") auto

definition pow2 :: "int \<Rightarrow> rat" where
  "pow2 e = (if 0 \<le> e then 2 ^ nat e else 1 / 2 ^ nat (- e))"

text \<open>The exponent \<open>e\<close> with \<open>2 ^ e \<le> a < 2 ^ (e + 1)\<close>, for \<open>a > 0\<close>.\<close>

definition floor_log2 :: "rat \<Rightarrow> int" where
  "floor_log2 a =
     (let (n, d) = quotient_of a;
          e0 = bit_length n - bit_length d
      in if pow2 e0 \<le> a then e0 else e0 - 1)"

definition round_half_even :: "rat \<Rightarrow> int" where
  "round_half_even x =
     (let f = \<lfloor>x\<rfloor>; r = x - of_int f
      in if r < 1 / 2 then f
         else if 1 / 2 < r then f + 1
         else if even f then f else f + 1)"

text \<open>
  Round to nearest, ties to even, with 53 significant bits, the smallest exponent of a
  subnormal (\<open>-1074\<close>), and overflow to an infinity from \<open>2 ^ 1024\<close> on.
\<close>

definition round_binary64 :: "rat \<Rightarrow> pyfloat" where
  "round_binary64 q =
     (if q = 0 then Finite 0
      else let a = \<bar>q\<bar>;
               p = max (floor_log2 a - 52) (- 1074);
               v = of_int (round_half_even (a / pow2 p)) * pow2 p
           in if pow2 1024 \<le> v then (if q < 0 then NegInf else PosInf)
              else Finite (if q < 0 then - v else v))"

subsection \<open>The grammar of \<open>float(str)\<close>\<close>

definition is_digit :: "char \<Rightarrow> bool" where
  "is_digit c = (48 \<le> code c \<and> code c \<le> 57)"

definition digit_val :: "char \<Rightarrow> int" where
  "digit_val c = int (code c) - 48"

definition digits_val :: "string \<Rightarrow> int" where
  "digits_val ds = foldl (\<lambda>acc c. 10 * acc + digit_val c) 0 ds"

definition ascii_lower :: "char \<Rightarrow> char" where
  "ascii_lower c = (if 65 \<le> code c \<and> code c \<le> 90 then char_of (code c + 32) else c)"

text \<open>
  Underscores may only stand between two digits; they are removed before the number is
  read. \<open>prev\<close> is the character before the current one (\<open>None\<close> at the start).
\<close>

fun strip_underscores :: "char option \<Rightarrow> string \<Rightarrow> string option" where
  "strip_underscores prev [] = (if prev = Some CHR ''_'' then None else Some [])"
| "strip_underscores prev (c # cs) =
     (if c = CHR ''_'' then
        (case prev of
           None \<Rightarrow> None
         | Some p \<Rightarrow> if is_digit p then strip_underscores (Some c) cs else None)
      else if prev = Some CHR ''_'' \<and> \<not> is_digit c then None
      else map_option ((#) c) (strip_underscores (Some c) cs))"

text \<open>An optional sign: the sign read (\<open>True\<close> for minus) and the rest.\<close>

fun take_sign :: "string \<Rightarrow> bool \<times> string" where
  "take_sign [] = (False, [])"
| "take_sign (c # cs) =
     (if c = CHR ''-'' then (True, cs)
      else if c = CHR ''+'' then (False, cs)
      else (False, c # cs))"

text \<open>The exponent part, after the mantissa: empty, or \<open>e\<close>/\<open>E\<close>, an optional sign and at
  least one digit, up to the end of the text.\<close>

fun parse_exponent :: "string \<Rightarrow> int option" where
  "parse_exponent [] = Some 0"
| "parse_exponent (c # cs) =
     (if c = CHR ''e'' \<or> c = CHR ''E'' then
        (let (neg, ds) = take_sign cs
         in if ds \<noteq> [] \<and> list_all is_digit ds
            then Some (if neg then - digits_val ds else digits_val ds)
            else None)
      else None)"

text \<open>An unsigned decimal number: digits, an optional point and digits (at least one digit
  in all), and the exponent part. The result is the exact value.\<close>

definition parse_decimal :: "string \<Rightarrow> rat option" where
  "parse_decimal s =
     (let ip = takeWhile is_digit s; r1 = dropWhile is_digit s;
          (fp, r2) = (case r1 of
                        [] \<Rightarrow> ([], [])
                      | c # cs \<Rightarrow> if c = CHR ''.''
                                  then (takeWhile is_digit cs, dropWhile is_digit cs)
                                  else ([], r1))
      in if ip = [] \<and> fp = [] then None
         else (case parse_exponent r2 of
                 None \<Rightarrow> None
               | Some e \<Rightarrow>
                   Some (of_int (digits_val (ip @ fp)) * 10 powi (e - int (length fp)))))"

text \<open>\<open>inf\<close>, \<open>infinity\<close> and \<open>nan\<close>, in any mix of cases, after the optional sign.\<close>

definition parse_inf_or_nan :: "bool \<Rightarrow> string \<Rightarrow> pyfloat option" where
  "parse_inf_or_nan neg s =
     (let l = map ascii_lower s
      in if l = ''inf'' \<or> l = ''infinity'' then Some (if neg then NegInf else PosInf)
         else if l = ''nan'' then Some NaN
         else None)"

text \<open>
  \<open>float(s)\<close> for a string \<open>s\<close>: \<open>None\<close> is the \<open>ValueError\<close>. Whitespace at both
  ends is dropped, underscores between digits are removed, and the whole of what is left
  must be a signed decimal number, an infinity or a NaN.
\<close>

definition py_float :: "string \<Rightarrow> pyfloat option" where
  "py_float s =
     (case strip_underscores None (strip s) of
        None \<Rightarrow> None
      | Some t \<Rightarrow>
          (let (neg, u) = take_sign t
           in case parse_decimal u of
                Some q \<Rightarrow> Some (round_binary64 (if neg then - q else q))
              | None \<Rightarrow> parse_inf_or_nan neg u))"

section \<open>The data model\<close>

text \<open>The \<open>Book\<close> table: one record per row. The field \<open>id\<close> is \<open>book_id\<close> here.\<close>

record book =
  book_id :: int
  title :: string
  author :: string
  rating :: pyfloat

text \<open>The table is the list of its rows, in insertion order.\<close>

type_synonym table = "book list"

datatype http_method = GET | POST

text \<open>A request: its method, the submitted form and the query string, both from field
  names to text.\<close>

record request =
  req_method :: http_method
  form :: "string \<rightharpoonup> string"
  args :: "string \<rightharpoonup> string"

text \<open>\<open>d.get(k, default)\<close>.\<close>

definition get_default :: "(string \<rightharpoonup> string) \<Rightarrow> string \<Rightarrow> string \<Rightarrow> string" where
  "get_default d k dflt = (case d k of None \<Rightarrow> dflt | Some v \<Rightarrow> v)"

text \<open>What a template is rendered with.\<close>

datatype template_context = NoContext | Books "book list" | OneBook book

text \<open>
  The response of a request: a rendered template, a redirect to a path, or the request
  aborted with a status code (404 from \<open>get_or_404\<close>, 500 for an exception nothing catches).
\<close>

datatype response = Render string template_context | Redirect string | Abort nat

text \<open>A flashed message: the text and its category.\<close>

type_synonym flash = "string \<times> string"

text \<open>What a view leaves behind: the table, the response and the messages flashed.\<close>

type_synonym outcome = "table \<times> response \<times> flash list"

definition url_for_home :: string where
  "url_for_home = ''/''"

section \<open>Storage operations\<close>

text \<open>
  \<open>scalar_one_or_none\<close> on the rows a query selects: no row is \<open>None\<close>, one row is that
  row, more than one raises \<open>MultipleResultsFound\<close> (\<open>Inl\<close>).
\<close>

datatype db_error = MultipleResultsFound

fun scalar_one_or_none :: "'a list \<Rightarrow> db_error + 'a option" where
  "scalar_one_or_none [] = Inr None"
| "scalar_one_or_none [x] = Inr (Some x)"
| "scalar_one_or_none (x # y # zs) = Inl MultipleResultsFound"

text \<open>
  \<open>db.get_or_404(Book, ident)\<close>: the row whose primary key the identifier text denotes, or
  \<open>None\<close> for the abort with 404. The identifier arrives as text and the key is an integer;
  which key a text denotes is decided by the storage engine, so it is the parameter \<open>key\<close>
  (\<open>None\<close>: the text denotes no key).
\<close>

definition get_or_404 :: "(string \<Rightarrow> int option) \<Rightarrow> table \<Rightarrow> string \<Rightarrow> book option" where
  "get_or_404 key rows ident =
     (case key ident of
        None \<Rightarrow> None
      | Some k \<Rightarrow> find (\<lambda>b. book_id b = k) rows)"

text \<open>The key the storage gives a new row: one more than the largest key in use.\<close>

definition next_id :: "table \<Rightarrow> int" where
  "next_id rows = fold max (map book_id rows) 0 + 1"

text \<open>The three writes, as they stand once the commit has succeeded.\<close>

definition insert_book :: "table \<Rightarrow> string \<Rightarrow> string \<Rightarrow> pyfloat \<Rightarrow> table" where
  "insert_book rows t a r =
     rows @ [\<lparr>book_id = next_id rows, title = t, author = a, rating = r\<rparr>]"

definition update_rating :: "table \<Rightarrow> int \<Rightarrow> pyfloat \<Rightarrow> table" where
  "update_rating rows k r = map (\<lambda>b. if book_id b = k then b\<lparr>rating := r\<rparr> else b) rows"

definition delete_book :: "table \<Rightarrow> int \<Rightarrow> table" where
  "delete_book rows k = filter (\<lambda>b. book_id b \<noteq> k) rows"

text \<open>
  The commit of a row with a new rating. The column \<open>rating\<close> is declared
  \<open>nullable=False\<close> and the database is SQLite, which has no NaN: a NaN bound to a
  statement is stored as NULL. A row whose rating is NaN therefore violates the NOT NULL
  constraint and its commit raises \<open>IntegrityError\<close>. \<open>commit_ok\<close> stands for everything
  else that can make a commit raise (it is \<open>False\<close> when something does).
\<close>

definition violates_not_null :: "pyfloat \<Rightarrow> bool" where
  "violates_not_null r = (r = NaN)"

definition commit_succeeds :: "bool \<Rightarrow> pyfloat \<Rightarrow> bool" where
  "commit_succeeds commit_ok r = (commit_ok \<and> \<not> violates_not_null r)"

section \<open>The views\<close>

text \<open>
  Each view takes the table and the request and returns the table it leaves, its response and
  the messages it flashes. The anti-forgery check runs before a view and is not part of it:
  the requests here are the ones that reach the view.
\<close>

text \<open>\<open>home\<close>: all rows ordered by title, rendered by \<open>index.html\<close>. Rows of the same
  title would keep their order here; the column is unique, so a table has none.\<close>

definition home :: "table \<Rightarrow> outcome" where
  "home rows = (rows, Render ''index.html'' (Books (sort_key title rows)), [])"

text \<open>
  \<open>add\<close>. When the commit raises, the exception handler rolls the session back and the
  table is as before.
\<close>

definition add :: "table \<Rightarrow> request \<Rightarrow> bool \<Rightarrow> outcome" where
  "add rows req commit_ok =
     (if req_method req = POST then
        (let title' = strip (get_default (form req) ''title'' []);
             author' = strip (get_default (form req) ''author'' []);
             rating_str = strip (get_default (form req) ''rating'' [])
         in if title' = [] \<or> author' = [] \<or> rating_str = [] then
              (rows, Render ''add.html'' NoContext, [(''All fields are required.'', ''error'')])
            else
              (case py_float rating_str of
                 None \<Rightarrow>
                   (rows, Render ''add.html'' NoContext,
                    [(''Rating must be a valid number.'', ''error'')])
               | Some rating' \<Rightarrow>
                   if float_lt rating' 0 \<or> float_gt rating' 10 then
                     (rows, Render ''add.html'' NoContext,
                      [(''Rating must be between 0 and 10.'', ''error'')])
                   else
                     (case scalar_one_or_none (filter (\<lambda>b. title b = title') rows) of
                        Inl e \<Rightarrow> (rows, Abort 500, [])
                      | Inr (Some existing_book) \<Rightarrow>
                          (rows, Render ''add.html'' NoContext,
                           [(''A book with this title already exists.'', ''error'')])
                      | Inr None \<Rightarrow>
                          if commit_succeeds commit_ok rating' then
                            (insert_book rows title' author' rating', Redirect url_for_home,
                             [(''Book added successfully!'', ''success'')])
                          else
                            (rows, Render ''add.html'' NoContext,
                             [(''An error occurred while adding the book.'', ''error'')]))))
      else (rows, Render ''add.html'' NoContext, []))"

text \<open>\<open>edit\<close>: the rating form on GET, the update on POST.\<close>

definition edit :: "(string \<Rightarrow> int option) \<Rightarrow> table \<Rightarrow> request \<Rightarrow> bool \<Rightarrow> outcome" where
  "edit key rows req commit_ok =
     (if req_method req = POST then
        (case form req ''id'' of
           None \<Rightarrow> (rows, Redirect url_for_home, [(''Invalid book ID.'', ''error'')])
         | Some book_id' \<Rightarrow>
             if book_id' = [] then
               (rows, Redirect url_for_home, [(''Invalid book ID.'', ''error'')])
             else
               (case get_or_404 key rows book_id' of
                  None \<Rightarrow> (rows, Abort 404, [])
                | Some book_to_update \<Rightarrow>
                    (let rating_str = strip (get_default (form req) ''rating'' [])
                     in if rating_str = [] then
                          (rows, Render ''edit_rating.html'' (OneBook book_to_update),
                           [(''Rating is required.'', ''error'')])
                        else
                          (case py_float rating_str of
                             None \<Rightarrow>
                               (rows, Render ''edit_rating.html'' (OneBook book_to_update),
                                [(''Rating must be a valid number.'', ''error'')])
                           | Some rating' \<Rightarrow>
                               if float_lt rating' 0 \<or> float_gt rating' 10 then
                                 (rows, Render ''edit_rating.html'' (OneBook book_to_update),
                                  [(''Rating must be between 0 and 10.'', ''error'')])
                               else if commit_succeeds commit_ok rating' then
                                 (update_rating rows (book_id book_to_update) rating',
                                  Redirect url_for_home,
                                  [(''Rating updated successfully!'', ''success'')])
                               else
                                 (rows, Redirect url_for_home,
                                  [(''An error occurred while updating the rating.'',
                                    ''error'')])))))
      else
        (case args req ''id'' of
           None \<Rightarrow> (rows, Redirect url_for_home, [(''Invalid book ID.'', ''error'')])
         | Some book_id' \<Rightarrow>
             if book_id' = [] then
               (rows, Redirect url_for_home, [(''Invalid book ID.'', ''error'')])
             else
               (case get_or_404 key rows book_id' of
                  None \<Rightarrow> (rows, Abort 404, [])
                | Some book_selected \<Rightarrow>
                    (rows, Render ''edit_rating.html'' (OneBook book_selected), []))))"

text \<open>\<open>delete\<close> (POST only). A delete writes no rating, so only \<open>commit_ok\<close> decides
  its commit.\<close>

definition delete :: "(string \<Rightarrow> int option) \<Rightarrow> table \<Rightarrow> request \<Rightarrow> bool \<Rightarrow> outcome" where
  "delete key rows req commit_ok =
     (case form req ''id'' of
        None \<Rightarrow> (rows, Redirect url_for_home, [(''Invalid book ID.'', ''error'')])
      | Some book_id' \<Rightarrow>
          if book_id' = [] then
            (rows, Redirect url_for_home, [(''Invalid book ID.'', ''error'')])
          else
            (case get_or_404 key rows book_id' of
               None \<Rightarrow> (rows, Abort 404, [])
             | Some book_to_delete \<Rightarrow>
                 if commit_ok then
                   (delete_book rows (book_id book_to_delete), Redirect url_for_home,
                    [([CHR 0x27] @ title book_to_delete
                        @ [CHR 0x27] @ '' has been deleted successfully!'', ''success'')])
                 else
                   (rows, Redirect url_for_home,
                    [(''An error occurred while deleting the book.'', ''error'')])))"

section \<open>Reachable tables and the properties of the specification\<close>

text \<open>The tables the application can reach from the empty table it creates, by any
  sequence of requests to its views, with any outcome of each commit.\<close>

inductive reachable :: "(string \<Rightarrow> int option) \<Rightarrow> table \<Rightarrow> bool"
  for key :: "string \<Rightarrow> int option" where
  created: "reachable key []"
| after_home: "reachable key rows \<Longrightarrow> reachable key (fst (home rows))"
| after_add: "reachable key rows \<Longrightarrow> reachable key (fst (add rows req commit_ok))"
| after_edit: "reachable key rows \<Longrightarrow> reachable key (fst (edit key rows req commit_ok))"
| after_delete: "reachable key rows \<Longrightarrow> reachable key (fst (delete key rows req commit_ok))"

text \<open>The specification's range: a number \<open>r\<close> with \<open>0 \<le> r \<le> 10\<close>.\<close>

fun in_range :: "pyfloat \<Rightarrow> bool" where
  "in_range (Finite q) = (0 \<le> q \<and> q \<le> 10)"
| "in_range PosInf = False"
| "in_range NegInf = False"
| "in_range NaN = False"

text \<open>The parts of an outcome.\<close>

definition table_of :: "outcome \<Rightarrow> table" where
  "table_of out = fst out"

definition response_of :: "outcome \<Rightarrow> response" where
  "response_of out = fst (snd out)"

definition flashes_of :: "outcome \<Rightarrow> flash list" where
  "flashes_of out = snd (snd out)"

text \<open>The three texts of an add submission, as the view reads them.\<close>

definition title_field :: "request \<Rightarrow> string" where
  "title_field req = strip (get_default (form req) ''title'' [])"

definition author_field :: "request \<Rightarrow> string" where
  "author_field req = strip (get_default (form req) ''author'' [])"

definition rating_field :: "request \<Rightarrow> string" where
  "rating_field req = strip (get_default (form req) ''rating'' [])"

text \<open>Concrete requests and a concrete reading of identifiers, for the examples: a POST
  with the given form fields, a GET with the given query, and the storage reading a decimal
  numeral as the key it writes.\<close>

definition post_form :: "(string \<times> string) list \<Rightarrow> request" where
  "post_form kv = \<lparr>req_method = POST, form = map_of kv, args = map_of []\<rparr>"

definition get_query :: "(string \<times> string) list \<Rightarrow> request" where
  "get_query kv = \<lparr>req_method = GET, form = map_of [], args = map_of kv\<rparr>"

definition decimal_key :: "string \<Rightarrow> int option" where
  "decimal_key s = (if s \<noteq> [] \<and> list_all is_digit s then Some (digits_val s) else None)"

definition dune :: book where
  "dune = \<lparr>book_id = 1, title = ''Dune'', author = ''Frank Herbert'', rating = Finite 9\<rparr>"

definition emma :: book where
  "emma = \<lparr>book_id = 2, title = ''Emma'', author = ''Jane Austen'', rating = Finite 8\<rparr>"

definition dune7 :: book where
  "dune7 = \<lparr>book_id = 1, title = ''Dune'', author = ''Frank Herbert'', rating = Finite 7\<rparr>"

subsection \<open>Evaluating \<open>float\<close> on the texts of the examples\<close>

lemma float_nan: "py_float ''nan'' = Some NaN"
  by (simp add: py_float_def strip_def py_isspace_def parse_decimal_def parse_inf_or_nan_def
      ascii_lower_def is_digit_def code_def)

lemma float_abc: "py_float ''abc'' = None"
  by (simp add: py_float_def strip_def py_isspace_def parse_decimal_def parse_inf_or_nan_def
      ascii_lower_def is_digit_def code_def)

lemma round_7: "round_binary64 7 = Finite 7"
  by (simp add: round_binary64_def floor_log2_def pow2_def round_half_even_def Let_def)

lemma round_11: "round_binary64 11 = Finite 11"
  by (simp add: round_binary64_def floor_log2_def pow2_def round_half_even_def Let_def)

lemma float_7: "py_float ''7'' = Some (Finite 7)"
  by (simp add: py_float_def strip_def py_isspace_def parse_decimal_def is_digit_def code_def
      digits_val_def digit_val_def round_7)

lemma float_11: "py_float ''11'' = Some (Finite 11)"
  by (simp add: py_float_def strip_def py_isspace_def parse_decimal_def is_digit_def code_def
      digits_val_def digit_val_def round_11)

subsection \<open>Unfolding the examples\<close>

lemmas eval_defs = get_default_def post_form_def get_query_def get_or_404_def decimal_key_def
  is_digit_def code_def digits_val_def digit_val_def url_for_home_def dune_def emma_def
  table_of_def response_of_def flashes_of_def

subsection \<open>The list view\<close>

text \<open>With distinct titles, the rows of a table have only one order by title.\<close>

lemma filter_title_self:
  "distinct (map title rows) \<Longrightarrow> k \<in> set rows
   \<Longrightarrow> filter (\<lambda>x. title k = title x) rows = [k]"
proof (induction rows)
  case Nil
  then show ?case by simp
next
  case (Cons a rows)
  show ?case
  proof (cases "k = a")
    case True
    from Cons.prems(1) have "title a \<notin> title ` set rows" by simp
    then have "\<forall>x\<in>set rows. title a \<noteq> title x" by (metis image_eqI)
    then have "filter (\<lambda>x. title a = title x) rows = []"
      by (simp add: filter_empty_conv)
    with True show ?thesis by simp
  next
    case False
    with Cons.prems(2) have k: "k \<in> set rows" by simp
    from Cons.prems(1) have "title a \<notin> title ` set rows" by simp
    with k have "title k \<noteq> title a" by (metis image_eqI)
    with Cons k show ?thesis by simp
  qed
qed

lemma listing_independent_of_order:
  assumes m: "mset rows1 = mset rows2" and d: "distinct (map title rows1)"
  shows "sort_key title rows1 = sort_key title rows2"
proof (rule properties_for_sort_key)
  show "mset (sort_key title rows2) = mset rows1" using m by simp
  show "sorted (map title (sort_key title rows2))" by simp
  fix k assume k: "k \<in> set (sort_key title rows2)"
  from m have "mset (map title rows1) = mset (map title rows2)" by (metis mset_map)
  with d have d2: "distinct (map title rows2)" by (metis mset_eq_imp_distinct_iff)
  then have d3: "distinct (map title (sort_key title rows2))"
    by (metis distinct_map distinct_sort set_sort)
  from k m have k1: "k \<in> set rows1" by (metis mset_eq_setD set_sort)
  show "filter (\<lambda>x. title k = title x) (sort_key title rows2)
        = filter (\<lambda>x. title k = title x) rows1"
    using filter_title_self[OF d3 k] filter_title_self[OF d k1] by simp
qed

text \<open>
  C8. For every table, the list view hands the template all the rows ordered by title
  ascending: what it lists is sorted by title and has exactly the rows of the table. The order
  in which the rows were inserted does not matter: two tables with the same rows (and distinct
  titles) are listed alike. The view writes nothing (the table it leaves is the table it got)
  and flashes nothing, and on the empty table it succeeds with the empty list.
\<close>

theorem home_lists_by_title:
  "table_of (home rows) = rows \<and> flashes_of (home rows) = []
   \<and> response_of (home rows) = Render ''index.html'' (Books (sort_key title rows))
   \<and> sorted (map title (sort_key title rows))
   \<and> mset (sort_key title rows) = mset rows
   \<and> (mset rows = mset rows' \<and> distinct (map title rows) \<longrightarrow>
         response_of (home rows') = response_of (home rows))
   \<and> home [] = ([], Render ''index.html'' (Books []), [])"
  using listing_independent_of_order[of rows rows']
  by (simp add: home_def table_of_def response_of_def flashes_of_def)

text \<open>\<open>Emma\<close> inserted before \<open>Dune\<close>, and after it.\<close>

theorem home_lists_by_title_witness:
  "mset [dune, emma] = mset [emma, dune] \<and> distinct (map title [dune, emma])
   \<and> response_of (home [emma, dune]) = Render ''index.html'' (Books [dune, emma])
   \<and> response_of (home [dune, emma]) = Render ''index.html'' (Books [dune, emma])"
proof -
  have a: "mset [dune, emma] = mset [emma, dune]" by simp
  have b: "distinct (map title [dune, emma])" by (simp add: dune_def emma_def)
  have c: "sort_key title [dune, emma] = [dune, emma]" by (simp add: dune_def emma_def)
  show ?thesis
    using a b c home_lists_by_title[of "[dune, emma]" "[emma, dune]"]
    by simp
qed

subsection \<open>Identifiers that resolve to no record\<close>

text \<open>
  C3. A request to edit (POST or GET) or to delete whose identifier is present (not empty) but
  resolves to no record ends with the not-found abort, status 404: no redirect, no form shown
  again, no message, and the table as it was.
\<close>

theorem unknown_identifier_not_found:
  assumes "ident \<noteq> []" and "get_or_404 key rows ident = None"
  shows "(form req ''id'' = Some ident \<longrightarrow> delete key rows req c = (rows, Abort 404, []))
       \<and> (req_method req = POST \<and> form req ''id'' = Some ident
            \<longrightarrow> edit key rows req c = (rows, Abort 404, []))
       \<and> (req_method req \<noteq> POST \<and> args req ''id'' = Some ident
            \<longrightarrow> edit key rows req c = (rows, Abort 404, []))"
  using assms by (simp add: delete_def edit_def)

text \<open>The identifier \<open>7\<close> on a table whose only record has the key 1.\<close>

theorem unknown_identifier_not_found_witness:
  "''7'' \<noteq> [] \<and> get_or_404 decimal_key [dune] ''7'' = None
   \<and> delete decimal_key [dune] (post_form [(''id'', ''7'')]) True = ([dune], Abort 404, [])
   \<and> edit decimal_key [dune] (post_form [(''id'', ''7''), (''rating'', ''7'')]) True
       = ([dune], Abort 404, [])
   \<and> edit decimal_key [dune] (get_query [(''id'', ''7'')]) True = ([dune], Abort 404, [])"
proof -
  have a: "''7'' \<noteq> []" by simp
  have b: "get_or_404 decimal_key [dune] ''7'' = None" by (simp add: eval_defs)
  show ?thesis
    using a b
      unknown_identifier_not_found[OF a b, of "post_form [(''id'', ''7'')]" True]
      unknown_identifier_not_found[OF a b, of "post_form [(''id'', ''7''), (''rating'', ''7'')]" True]
      unknown_identifier_not_found[OF a b, of "get_query [(''id'', ''7'')]" True]
    by (simp add: post_form_def get_query_def)
qed

subsection \<open>Where a delete ends\<close>

text \<open>
  C4, as stated, fails: a delete whose identifier resolves to no record does not redirect to
  the list view.
\<close>

theorem delete_not_found_is_no_redirect:
  "response_of (delete decimal_key [dune] (post_form [(''id'', ''7'')]) True) \<noteq> Redirect ''/''"
  by (simp add: delete_def eval_defs)

text \<open>
  C4, amended. A delete whose identifier is missing, empty, or resolves to a record ends by
  redirecting to the list view \<open>/\<close>, whether its commit succeeds or not; a delete whose
  identifier is present but resolves to no record ends with the not-found abort and leaves the
  table as it was.
\<close>

theorem delete_redirects_unless_not_found:
  "((form req ''id'' = None \<or> form req ''id'' = Some []
      \<or> (\<exists>ident b. form req ''id'' = Some ident \<and> get_or_404 key rows ident = Some b))
     \<longrightarrow> response_of (delete key rows req c) = Redirect ''/'')
   \<and> ((\<exists>ident. form req ''id'' = Some ident \<and> ident \<noteq> []
          \<and> get_or_404 key rows ident = None)
     \<longrightarrow> response_of (delete key rows req c) = Abort 404 \<and> table_of (delete key rows req c) = rows)"
  by (auto simp add: delete_def response_of_def table_of_def url_for_home_def split: option.splits)

text \<open>A resolving identifier with a failing commit, no identifier at all, and an identifier
  that resolves to nothing.\<close>

theorem delete_redirects_unless_not_found_witness:
  "get_or_404 decimal_key [dune] ''1'' = Some dune
   \<and> response_of (delete decimal_key [dune] (post_form [(''id'', ''1'')]) False) = Redirect ''/''
   \<and> response_of (delete decimal_key [dune] (post_form []) True) = Redirect ''/''
   \<and> get_or_404 decimal_key [dune] ''7'' = None
   \<and> response_of (delete decimal_key [dune] (post_form [(''id'', ''7'')]) True) = Abort 404"
proof -
  have a: "get_or_404 decimal_key [dune] ''1'' = Some dune" by (simp add: eval_defs)
  have b: "get_or_404 decimal_key [dune] ''7'' = None" by (simp add: eval_defs)
  show ?thesis
    using a b
      delete_redirects_unless_not_found[of "post_form [(''id'', ''1'')]" decimal_key "[dune]" False]
      delete_redirects_unless_not_found[of "post_form []" decimal_key "[dune]" True]
      delete_redirects_unless_not_found[of "post_form [(''id'', ''7'')]" decimal_key "[dune]" True]
    by (simp add: post_form_def)
qed

text \<open>
  C5. A delete whose identifier resolves to a record and whose commit succeeds flashes one
  message of category \<open>success\<close> that names the title of the deleted record, between
  quotes; the record was in the table and is no longer in it.
\<close>

theorem delete_success_names_title:
  assumes "form req ''id'' = Some ident" and "ident \<noteq> []"
    and "get_or_404 key rows ident = Some b"
  shows "delete key rows req True =
           (delete_book rows (book_id b), Redirect ''/'',
            [([CHR 0x27] @ title b @ [CHR 0x27] @ '' has been deleted successfully!'',
              ''success'')])
         \<and> b \<in> set rows \<and> b \<notin> set (table_of (delete key rows req True))"
  using assms
  by (auto simp add: delete_def url_for_home_def get_or_404_def table_of_def delete_book_def
      split: option.splits dest: find_Some_iff[THEN iffD1])

text \<open>Deleting \<open>Dune\<close> from a table of two.\<close>

theorem delete_success_names_title_witness:
  "form (post_form [(''id'', ''1'')]) ''id'' = Some ''1'' \<and> ''1'' \<noteq> []
   \<and> get_or_404 decimal_key [dune, emma] ''1'' = Some dune
   \<and> delete decimal_key [dune, emma] (post_form [(''id'', ''1'')]) True =
       ([emma], Redirect ''/'',
        [([CHR 0x27] @ ''Dune'' @ [CHR 0x27] @ '' has been deleted successfully!'', ''success'')])"
proof -
  have a: "form (post_form [(''id'', ''1'')]) ''id'' = Some ''1''" by (simp add: post_form_def)
  have b: "''1'' \<noteq> []" by simp
  have c: "get_or_404 decimal_key [dune, emma] ''1'' = Some dune" by (simp add: eval_defs)
  show ?thesis
    using a b c delete_success_names_title[OF a b c]
    by (simp add: delete_book_def dune_def emma_def)
qed

subsection \<open>What each view does to the table\<close>

text \<open>The range check and the NOT NULL constraint together let exactly the numbers of the
  range through.\<close>

lemma accepted_in_range:
  "\<not> float_lt r 0 \<Longrightarrow> \<not> float_gt r 10 \<Longrightarrow> \<not> violates_not_null r \<Longrightarrow> in_range r"
  by (cases r) (auto simp: violates_not_null_def)

lemma in_range_accepted:
  "in_range r \<Longrightarrow> \<not> float_lt r 0 \<and> \<not> float_gt r 10 \<and> \<not> violates_not_null r"
  by (cases r) (auto simp: violates_not_null_def)

lemma scalar_none_iff: "scalar_one_or_none xs = Inr None \<longleftrightarrow> xs = []"
  by (cases xs rule: scalar_one_or_none.cases) simp_all

lemma filter_title_empty: "filter (\<lambda>b. title b = t) rows = [] \<longleftrightarrow> t \<notin> title ` set rows"
  by (auto simp: filter_empty_conv)

lemma filter_title_single:
  "distinct (map title rows) \<Longrightarrow> t \<in> title ` set rows
   \<Longrightarrow> \<exists>b. filter (\<lambda>b. title b = t) rows = [b]"
proof (induction rows)
  case Nil
  then show ?case by simp
next
  case (Cons a rows)
  show ?case
  proof (cases "title a = t")
    case True
    with Cons.prems have "t \<notin> title ` set rows" by auto
    then have "filter (\<lambda>b. title b = t) rows = []" by (simp add: filter_title_empty)
    with True show ?thesis by simp
  next
    case False
    with Cons show ?thesis by auto
  qed
qed

text \<open>A view leaves the table as it was, or makes the one write of its last branch.\<close>

lemma add_table_cases:
  "table_of (add rows req c) = rows \<or>
   (\<exists>r. py_float (rating_field req) = Some r \<and> in_range r
        \<and> title_field req \<notin> title ` set rows
        \<and> table_of (add rows req c) = insert_book rows (title_field req) (author_field req) r)"
  by (auto simp add: add_def table_of_def Let_def title_field_def author_field_def
      rating_field_def commit_succeeds_def scalar_none_iff filter_title_empty[symmetric]
      accepted_in_range split: option.splits sum.splits)

lemma get_or_404_in_set: "get_or_404 key rows ident = Some b \<Longrightarrow> b \<in> set rows"
  by (auto simp: get_or_404_def find_Some_iff split: option.splits)

lemma edit_table_cases:
  "table_of (edit key rows req c) = rows \<or>
   (\<exists>b r. b \<in> set rows \<and> in_range r
          \<and> table_of (edit key rows req c) = update_rating rows (book_id b) r)"
proof (cases "table_of (edit key rows req c) = rows")
  case True
  then show ?thesis by simp
next
  case False
  then obtain ident b r where b: "get_or_404 key rows ident = Some b"
    and r: "\<not> float_lt r 0" "\<not> float_gt r 10" "\<not> violates_not_null r"
    and t: "table_of (edit key rows req c) = update_rating rows (book_id b) r"
    by (auto simp add: edit_def table_of_def Let_def commit_succeeds_def
        split: option.splits if_splits)
  from b have "b \<in> set rows" by (rule get_or_404_in_set)
  moreover from r have "in_range r" by (rule accepted_in_range)
  ultimately show ?thesis using t by blast
qed

lemma delete_table_cases:
  "table_of (delete key rows req c) = rows \<or>
   (\<exists>b. b \<in> set rows \<and> table_of (delete key rows req c) = delete_book rows (book_id b))"
proof (cases "table_of (delete key rows req c) = rows")
  case True
  then show ?thesis by simp
next
  case False
  then obtain ident b where b: "get_or_404 key rows ident = Some b"
    and t: "table_of (delete key rows req c) = delete_book rows (book_id b)"
    by (auto simp add: delete_def table_of_def split: option.splits if_splits)
  from b have "b \<in> set rows" by (rule get_or_404_in_set)
  then show ?thesis using t by blast
qed

lemma home_table: "table_of (home rows) = rows"
  by (simp add: home_def table_of_def)

text \<open>The three writes keep the titles distinct and the ratings in the range.\<close>

lemma titles_update: "map title (update_rating rows k r) = map title rows"
  by (induction rows) (simp_all add: update_rating_def)

lemma titles_delete: "distinct (map title rows) \<Longrightarrow> distinct (map title (delete_book rows k))"
  by (simp add: delete_book_def distinct_map_filter)

lemma titles_insert:
  "distinct (map title rows) \<Longrightarrow> t \<notin> title ` set rows
   \<Longrightarrow> distinct (map title (insert_book rows t a r))"
  by (simp add: insert_book_def)

lemma ratings_update:
  "\<forall>b\<in>set rows. in_range (rating b) \<Longrightarrow> in_range r
   \<Longrightarrow> \<forall>b\<in>set (update_rating rows k r). in_range (rating b)"
  by (auto simp: update_rating_def)

lemma ratings_delete:
  "\<forall>b\<in>set rows. in_range (rating b) \<Longrightarrow> \<forall>b\<in>set (delete_book rows k). in_range (rating b)"
  by (simp add: delete_book_def)

lemma ratings_insert:
  "\<forall>b\<in>set rows. in_range (rating b) \<Longrightarrow> in_range r
   \<Longrightarrow> \<forall>b\<in>set (insert_book rows t a r). in_range (rating b)"
  by (simp add: insert_book_def)

lemma add_keeps_ratings:
  "\<forall>b\<in>set rows. in_range (rating b) \<Longrightarrow> \<forall>b\<in>set (table_of (add rows req c)). in_range (rating b)"
  using add_table_cases[of rows req c] ratings_insert by metis

lemma edit_keeps_ratings:
  "\<forall>b\<in>set rows. in_range (rating b)
   \<Longrightarrow> \<forall>b\<in>set (table_of (edit key rows req c)). in_range (rating b)"
  using edit_table_cases[of key rows req c] ratings_update by metis

lemma delete_keeps_ratings:
  "\<forall>b\<in>set rows. in_range (rating b)
   \<Longrightarrow> \<forall>b\<in>set (table_of (delete key rows req c)). in_range (rating b)"
  using delete_table_cases[of key rows req c] ratings_delete by metis

lemma reachable_ratings: "reachable key rows \<Longrightarrow> \<forall>b\<in>set rows. in_range (rating b)"
proof (induction rule: reachable.induct)
  case created
  show ?case by simp
next
  case (after_home rows)
  then show ?case using home_table[of rows] by (simp add: table_of_def)
next
  case (after_add rows req commit_ok)
  then show ?case using add_keeps_ratings[of rows req commit_ok] by (simp add: table_of_def)
next
  case (after_edit rows req commit_ok)
  then show ?case using edit_keeps_ratings[of rows key req commit_ok] by (simp add: table_of_def)
next
  case (after_delete rows req commit_ok)
  then show ?case using delete_keeps_ratings[of rows key req commit_ok] by (simp add: table_of_def)
qed

lemma add_keeps_titles:
  "distinct (map title rows) \<Longrightarrow> distinct (map title (table_of (add rows req c)))"
  using add_table_cases[of rows req c] titles_insert by metis

lemma edit_keeps_titles:
  "distinct (map title rows) \<Longrightarrow> distinct (map title (table_of (edit key rows req c)))"
  using edit_table_cases[of key rows req c] titles_update by metis

lemma delete_keeps_titles:
  "distinct (map title rows) \<Longrightarrow> distinct (map title (table_of (delete key rows req c)))"
  using delete_table_cases[of key rows req c] titles_delete by metis

lemma reachable_titles: "reachable key rows \<Longrightarrow> distinct (map title rows)"
proof (induction rule: reachable.induct)
  case created
  show ?case by simp
next
  case (after_home rows)
  then show ?case using home_table[of rows] by (simp add: table_of_def)
next
  case (after_add rows req commit_ok)
  then show ?case using add_keeps_titles[of rows req commit_ok] by (simp add: table_of_def)
next
  case (after_edit rows req commit_ok)
  then show ?case using edit_keeps_titles[of rows key req commit_ok] by (simp add: table_of_def)
next
  case (after_delete rows req commit_ok)
  then show ?case using delete_keeps_titles[of rows key req commit_ok] by (simp add: table_of_def)
qed

subsection \<open>The ratings of persisted records\<close>

text \<open>The texts of the examples have no whitespace at their ends.\<close>

lemma strip_Dune: "strip ''Dune'' = ''Dune''"
  by (simp add: strip_def py_isspace_def code_def)

lemma strip_Frank: "strip ''Frank Herbert'' = ''Frank Herbert''"
  by (simp add: strip_def py_isspace_def code_def)

lemma strip_7: "strip ''7'' = ''7''"
  by (simp add: strip_def py_isspace_def code_def)

lemma strip_nan: "strip ''nan'' = ''nan''"
  by (simp add: strip_def py_isspace_def code_def)

lemma strip_abc: "strip ''abc'' = ''abc''"
  by (simp add: strip_def py_isspace_def code_def)

lemma strip_11: "strip ''11'' = ''11''"
  by (simp add: strip_def py_isspace_def code_def)

text \<open>Adding \<open>Dune\<close> with the rating \<open>7\<close> to the empty table.\<close>

lemma add_dune7:
  "add [] (post_form [(''title'', ''Dune''), (''author'', ''Frank Herbert''), (''rating'', ''7'')])
     True = ([dune7], Redirect ''/'', [(''Book added successfully!'', ''success'')])"
  by (simp add: add_def post_form_def get_default_def strip_Dune strip_Frank strip_7 float_7
      commit_succeeds_def violates_not_null_def insert_book_def next_id_def dune7_def
      url_for_home_def)

text \<open>
  C1. In every table reachable through the views, the rating of every record lies in the
  inclusive range from 0 to 10. Both writers of ratings commit only such a rating: when add
  changes the table it inserts one record whose rating is in the range, and when edit changes
  the table it overwrites the rating of a record with a rating in the range. (The range check of
  the views lets NaN through; the commit of a NaN raises, so no NaN is ever persisted.)
\<close>

theorem persisted_ratings_in_range:
  assumes "reachable key rows"
  shows "(\<forall>b\<in>set rows. in_range (rating b))
       \<and> (table_of (add rows req c) \<noteq> rows \<longrightarrow>
            (\<exists>r. in_range r \<and> table_of (add rows req c)
                   = insert_book rows (title_field req) (author_field req) r))
       \<and> (table_of (edit key rows req c) \<noteq> rows \<longrightarrow>
            (\<exists>b r. b \<in> set rows \<and> in_range r
                   \<and> table_of (edit key rows req c) = update_rating rows (book_id b) r))"
proof -
  have "\<forall>b\<in>set rows. in_range (rating b)"
    using assms by (rule reachable_ratings)
  moreover have "table_of (add rows req c) \<noteq> rows \<longrightarrow>
      (\<exists>r. in_range r \<and> table_of (add rows req c)
             = insert_book rows (title_field req) (author_field req) r)"
    using add_table_cases[of rows req c] by blast
  moreover have "table_of (edit key rows req c) \<noteq> rows \<longrightarrow>
      (\<exists>b r. b \<in> set rows \<and> in_range r
             \<and> table_of (edit key rows req c) = update_rating rows (book_id b) r)"
    using edit_table_cases[of key rows req c] by blast
  ultimately show ?thesis by blast
qed

text \<open>The table holding \<open>Dune\<close> with the rating 7 is reachable, and 7 is in the range.\<close>

theorem persisted_ratings_in_range_witness:
  "reachable decimal_key [dune7] \<and> dune7 \<in> set [dune7] \<and> in_range (rating dune7)"
proof -
  have "reachable decimal_key (fst (add []
      (post_form [(''title'', ''Dune''), (''author'', ''Frank Herbert''), (''rating'', ''7'')])
      True))"
    by (rule after_add[OF created])
  then have r: "reachable decimal_key [dune7]" by (simp add: add_dune7)
  from persisted_ratings_in_range[OF r] have "\<forall>b\<in>set [dune7]. in_range (rating b)"
    by blast
  then have "in_range (rating dune7)" by simp
  with r show ?thesis by simp
qed

subsection \<open>One record per title\<close>

lemma length_update: "length (update_rating rows k r) = length rows"
  by (simp add: update_rating_def)

lemma length_delete: "length (delete_book rows k) \<le> length rows"
  by (simp add: delete_book_def)

lemma add_refuses_known_title:
  "title_field req \<in> title ` set rows \<Longrightarrow> table_of (add rows req c) = rows"
  using add_table_cases[of rows req c] by blast

lemma add_duplicate_outcome:
  assumes d: "distinct (map title rows)" and p: "req_method req = POST"
    and t: "title_field req \<noteq> []" and a: "author_field req \<noteq> []"
    and f: "py_float (rating_field req) = Some r" and lo: "\<not> float_lt r 0"
    and hi: "\<not> float_gt r 10" and k: "title_field req \<in> title ` set rows"
  shows "add rows req c = (rows, Render ''add.html'' NoContext,
           [(''A book with this title already exists.'', ''error'')])"
proof -
  from filter_title_single[OF d k] obtain b
    where b: "filter (\<lambda>b. title b = title_field req) rows = [b]" by blast
  from f have ne: "rating_field req \<noteq> []"
    by (auto simp: py_float_def strip_def parse_decimal_def parse_inf_or_nan_def)
  show ?thesis
    using p t a f lo hi ne b
    by (simp add: add_def Let_def title_field_def author_field_def rating_field_def)
qed

text \<open>
  C9. In every reachable table no two records have the same title (titles compared exactly,
  case-sensitively). Add refuses a submission whose trimmed title is the title of an existing
  record: the table and the number of records stay as they were, and when the earlier checks
  pass the outcome is the "already exists" message with the add form shown again. No other view
  creates a record: edit keeps the number of records, delete does not raise it, and the list
  view leaves the table alone.
\<close>

theorem one_record_per_title:
  assumes "reachable key rows"
  shows "distinct (map title rows)
       \<and> (title_field req \<in> title ` set rows \<longrightarrow>
            table_of (add rows req c) = rows
            \<and> length (table_of (add rows req c)) = length rows)
       \<and> (req_method req = POST \<and> title_field req \<noteq> [] \<and> author_field req \<noteq> []
            \<and> py_float (rating_field req) = Some r \<and> \<not> float_lt r 0 \<and> \<not> float_gt r 10
            \<and> title_field req \<in> title ` set rows \<longrightarrow>
            add rows req c = (rows, Render ''add.html'' NoContext,
              [(''A book with this title already exists.'', ''error'')]))
       \<and> length (table_of (edit key rows req c)) = length rows
       \<and> length (table_of (delete key rows req c)) \<le> length rows
       \<and> table_of (home rows) = rows"
proof -
  have d: "distinct (map title rows)" using assms by (rule reachable_titles)
  have e: "length (table_of (edit key rows req c)) = length rows"
    using edit_table_cases[of key rows req c] length_update by metis
  have l: "length (table_of (delete key rows req c)) \<le> length rows"
    using delete_table_cases[of key rows req c] length_delete by (metis order_refl)
  show ?thesis
    using d e l add_refuses_known_title[of req rows c] add_duplicate_outcome[OF d, of req r c]
      home_table[of rows]
    by auto
qed

text \<open>Adding \<open>Dune\<close> a second time.\<close>

theorem one_record_per_title_witness:
  "reachable decimal_key [dune7] \<and> distinct (map title [dune7])
   \<and> title_field (post_form [(''title'', ''Dune''), (''author'', ''Frank Herbert''),
        (''rating'', ''7'')]) \<in> title ` set [dune7]
   \<and> add [dune7] (post_form [(''title'', ''Dune''), (''author'', ''Frank Herbert''),
        (''rating'', ''7'')]) True
      = ([dune7], Render ''add.html'' NoContext,
         [(''A book with this title already exists.'', ''error'')])"
proof -
  let ?req = "post_form [(''title'', ''Dune''), (''author'', ''Frank Herbert''),
        (''rating'', ''7'')]"
  have "reachable decimal_key (fst (add [] ?req True))"
    by (rule after_add[OF created])
  then have r: "reachable decimal_key [dune7]" by (simp add: add_dune7)
  have f: "title_field ?req = ''Dune''" "author_field ?req = ''Frank Herbert''"
    "rating_field ?req = ''7''" "req_method ?req = POST"
    by (simp_all add: title_field_def author_field_def rating_field_def post_form_def
        get_default_def strip_Dune strip_Frank strip_7)
  show ?thesis
    using r f one_record_per_title[OF r, of ?req True "Finite 7"]
    by (simp add: float_7 dune7_def)
qed

subsection \<open>What a successful edit changes\<close>

lemma update_rating_nth:
  "i < length rows \<Longrightarrow>
     update_rating rows k r ! i = (if book_id (rows ! i) = k then (rows ! i)\<lparr>rating := r\<rparr> else rows ! i)"
  by (simp add: update_rating_def)

lemma float_nonempty: "py_float s = Some r \<Longrightarrow> s \<noteq> []"
  by (auto simp: py_float_def strip_def parse_decimal_def parse_inf_or_nan_def)

text \<open>
  C7. A successful edit (a POST whose identifier resolves to a record, whose rating text parses
  to a number in the range, and whose commit succeeds) overwrites the rating of the identified
  record and nothing else: the table keeps its length, every row keeps its id, title and
  author, the rows with the identified key get the new rating, and every other row is unchanged.
\<close>

theorem edit_success_changes_rating_only:
  assumes "req_method req = POST" and "form req ''id'' = Some ident" and "ident \<noteq> []"
    and "get_or_404 key rows ident = Some b"
    and "py_float (rating_field req) = Some r" and "in_range r"
  shows "edit key rows req True =
           (update_rating rows (book_id b) r, Redirect ''/'',
            [(''Rating updated successfully!'', ''success'')])
       \<and> length (update_rating rows (book_id b) r) = length rows
       \<and> (\<forall>i<length rows.
             book_id (update_rating rows (book_id b) r ! i) = book_id (rows ! i)
           \<and> title (update_rating rows (book_id b) r ! i) = title (rows ! i)
           \<and> author (update_rating rows (book_id b) r ! i) = author (rows ! i)
           \<and> (book_id (rows ! i) = book_id b \<longrightarrow>
                 rating (update_rating rows (book_id b) r ! i) = r)
           \<and> (book_id (rows ! i) \<noteq> book_id b \<longrightarrow>
                 update_rating rows (book_id b) r ! i = rows ! i))"
proof -
  from assms(5) have ne: "rating_field req \<noteq> []" by (rule float_nonempty)
  from assms(6) have ok: "\<not> float_lt r 0" "\<not> float_gt r 10" "\<not> violates_not_null r"
    using in_range_accepted by blast+
  have "edit key rows req True =
           (update_rating rows (book_id b) r, Redirect ''/'',
            [(''Rating updated successfully!'', ''success'')])"
    using assms(1-5) ne ok
    by (simp add: edit_def Let_def rating_field_def commit_succeeds_def url_for_home_def)
  then show ?thesis
    by (simp add: update_rating_nth length_update)
qed

text \<open>Editing the rating of \<open>Dune\<close> to 7 in a table of two.\<close>

theorem edit_success_changes_rating_only_witness:
  "req_method (post_form [(''id'', ''1''), (''rating'', ''7'')]) = POST
   \<and> form (post_form [(''id'', ''1''), (''rating'', ''7'')]) ''id'' = Some ''1''
   \<and> get_or_404 decimal_key [dune, emma] ''1'' = Some dune
   \<and> py_float (rating_field (post_form [(''id'', ''1''), (''rating'', ''7'')])) = Some (Finite 7)
   \<and> in_range (Finite 7)
   \<and> edit decimal_key [dune, emma] (post_form [(''id'', ''1''), (''rating'', ''7'')]) True =
       ([dune\<lparr>rating := Finite 7\<rparr>, emma], Redirect ''/'',
        [(''Rating updated successfully!'', ''success'')])"
proof -
  let ?req = "post_form [(''id'', ''1''), (''rating'', ''7'')]"
  have a: "req_method ?req = POST" by (simp add: post_form_def)
  have b: "form ?req ''id'' = Some ''1''" by (simp add: post_form_def)
  have c: "''1'' \<noteq> []" by simp
  have d: "get_or_404 decimal_key [dune, emma] ''1'' = Some dune" by (simp add: eval_defs)
  have e: "py_float (rating_field ?req) = Some (Finite 7)"
    by (simp add: rating_field_def post_form_def get_default_def strip_7 float_7)
  have f: "in_range (Finite 7)" by simp
  show ?thesis
    using a b d e f edit_success_changes_rating_only[OF a b c d e f]
    by (simp add: update_rating_def dune_def emma_def)
qed

subsection \<open>The validation sequence of add\<close>

lemma not_in_range_rejected:
  "r \<noteq> NaN \<Longrightarrow> \<not> in_range r \<Longrightarrow> float_lt r 0 \<or> float_gt r 10"
  by (cases r) auto

text \<open>
  For every submission whose rating text does not parse to NaN, the four checks run in the
  order of the specification, the first failing one decides the outcome with its own message,
  the form is shown again and the table is as it was.
\<close>

lemma add_checks_in_order:
  assumes p: "req_method req = POST" and d: "distinct (map title rows)"
    and n: "py_float (rating_field req) \<noteq> Some NaN"
  shows "add rows req c =
    (if title_field req = [] \<or> author_field req = [] \<or> rating_field req = [] then
       (rows, Render ''add.html'' NoContext, [(''All fields are required.'', ''error'')])
     else if py_float (rating_field req) = None then
       (rows, Render ''add.html'' NoContext, [(''Rating must be a valid number.'', ''error'')])
     else if \<not> in_range (the (py_float (rating_field req))) then
       (rows, Render ''add.html'' NoContext, [(''Rating must be between 0 and 10.'', ''error'')])
     else if title_field req \<in> title ` set rows then
       (rows, Render ''add.html'' NoContext,
        [(''A book with this title already exists.'', ''error'')])
     else if c then
       (insert_book rows (title_field req) (author_field req) (the (py_float (rating_field req))),
        Redirect ''/'', [(''Book added successfully!'', ''success'')])
     else
       (rows, Render ''add.html'' NoContext,
        [(''An error occurred while adding the book.'', ''error'')]))"
proof (cases "title_field req = [] \<or> author_field req = [] \<or> rating_field req = []")
  case True
  with p show ?thesis
    by (simp add: add_def Let_def title_field_def author_field_def rating_field_def)
next
  case filled: False
  show ?thesis
  proof (cases "py_float (rating_field req)")
    case None
    with p filled show ?thesis
      by (simp add: add_def Let_def title_field_def author_field_def rating_field_def)
  next
    case (Some r)
    with n have nn: "r \<noteq> NaN" by simp
    show ?thesis
    proof (cases "in_range r")
      case False
      with nn have "float_lt r 0 \<or> float_gt r 10" by (rule not_in_range_rejected)
      with p filled Some False show ?thesis
        by (simp add: add_def Let_def title_field_def author_field_def rating_field_def)
    next
      case True
      then have ok: "\<not> float_lt r 0" "\<not> float_gt r 10" "\<not> violates_not_null r"
        using in_range_accepted by blast+
      show ?thesis
      proof (cases "title_field req \<in> title ` set rows")
        case known: True
        from filled have "title_field req \<noteq> []" "author_field req \<noteq> []" by simp_all
        from add_duplicate_outcome[OF d p this Some ok(1,2) known, of c]
        show ?thesis using filled Some True known by simp
      next
        case new: False
        then have "filter (\<lambda>b. title b = title_field req) rows = []"
          by (simp add: filter_title_empty)
        with p filled Some True ok new show ?thesis
          by (simp add: add_def Let_def title_field_def author_field_def rating_field_def
              commit_succeeds_def url_for_home_def)
      qed
    qed
  qed
qed

text \<open>
  C2. The sequence fails for one rating text. \<open>nan\<close> parses, to NaN, which is not in the range
  from 0 to 10; yet the range check does not reject it, and the outcome is not the message
  "Rating must be between 0 and 10." but the message of a failed commit.
\<close>

theorem add_nan_gets_storage_error:
  "py_float ''nan'' = Some NaN \<and> \<not> in_range NaN
   \<and> add [] (post_form [(''title'', ''Dune''), (''author'', ''Frank Herbert''),
        (''rating'', ''nan'')]) True
      = ([], Render ''add.html'' NoContext,
         [(''An error occurred while adding the book.'', ''error'')])"
  by (simp add: float_nan add_def post_form_def get_default_def strip_Dune strip_Frank strip_nan
      commit_succeeds_def violates_not_null_def)

subsection \<open>The rating text \<open>nan\<close>\<close>

text \<open>
  C10, as stated, fails: adding a book with the rating text \<open>nan\<close>, a new title and a
  commit that nothing else disturbs persists no record.
\<close>

theorem add_nan_persists_nothing:
  "table_of (add [dune] (post_form [(''title'', ''Emma''), (''author'', ''Jane Austen''),
        (''rating'', ''nan'')]) True) = [dune]"
  using add_table_cases[of "[dune]" "post_form [(''title'', ''Emma''), (''author'', ''Jane Austen''),
        (''rating'', ''nan'')]" True]
  by (auto simp add: rating_field_def post_form_def get_default_def strip_nan float_nan)

text \<open>
  C10, amended. The rating text \<open>nan\<close> parses to NaN, and the range check does not reject it
  because \<open>NaN < 0\<close> and \<open>NaN > 10\<close> are both false. With a non-empty title and author and
  no record of that title, add therefore goes on to the commit, which raises: the table is as
  it was, the add form is shown again and the message is the one of a failed commit. Edit
  behaves the same way on a resolving identifier: the record keeps its rating, and the response
  is the redirect with the message of a failed commit.
\<close>

theorem nan_passes_checks_and_fails_commit:
  "py_float ''nan'' = Some NaN \<and> \<not> float_lt NaN 0 \<and> \<not> float_gt NaN 10
   \<and> (req_method req = POST \<and> title_field req \<noteq> [] \<and> author_field req \<noteq> []
        \<and> rating_field req = ''nan'' \<and> title_field req \<notin> title ` set rows \<longrightarrow>
        add rows req c = (rows, Render ''add.html'' NoContext,
          [(''An error occurred while adding the book.'', ''error'')]))
   \<and> (req_method req = POST \<and> form req ''id'' = Some ident \<and> ident \<noteq> []
        \<and> get_or_404 key rows ident = Some b \<and> rating_field req = ''nan'' \<longrightarrow>
        edit key rows req c = (rows, Redirect ''/'',
          [(''An error occurred while updating the rating.'', ''error'')]))"
  by (auto simp add: float_nan add_def edit_def Let_def title_field_def author_field_def
      rating_field_def commit_succeeds_def violates_not_null_def url_for_home_def
      filter_title_empty[THEN iffD2])

text \<open>Adding \<open>Emma\<close> with the rating text \<open>nan\<close>, and editing \<open>Dune\<close> to it.\<close>

theorem nan_passes_checks_and_fails_commit_witness:
  "req_method (post_form [(''title'', ''Emma''), (''author'', ''Jane Austen''),
        (''rating'', ''nan'')]) = POST
   \<and> rating_field (post_form [(''title'', ''Emma''), (''author'', ''Jane Austen''),
        (''rating'', ''nan'')]) = ''nan''
   \<and> title_field (post_form [(''title'', ''Emma''), (''author'', ''Jane Austen''),
        (''rating'', ''nan'')]) \<notin> title ` set [dune]
   \<and> add [dune] (post_form [(''title'', ''Emma''), (''author'', ''Jane Austen''),
        (''rating'', ''nan'')]) True
      = ([dune], Render ''add.html'' NoContext,
         [(''An error occurred while adding the book.'', ''error'')])
   \<and> get_or_404 decimal_key [dune] ''1'' = Some dune
   \<and> edit decimal_key [dune] (post_form [(''id'', ''1''), (''rating'', ''nan'')]) True
      = ([dune], Redirect ''/'',
         [(''An error occurred while updating the rating.'', ''error'')])"
proof -
  let ?a = "post_form [(''title'', ''Emma''), (''author'', ''Jane Austen''), (''rating'', ''nan'')]"
  let ?e = "post_form [(''id'', ''1''), (''rating'', ''nan'')]"
  have fa: "req_method ?a = POST" "title_field ?a = ''Emma''" "author_field ?a = ''Jane Austen''"
    "rating_field ?a = ''nan''"
    by (simp_all add: title_field_def author_field_def rating_field_def post_form_def
        get_default_def strip_def py_isspace_def code_def)
  have fe: "req_method ?e = POST" "form ?e ''id'' = Some ''1''" "rating_field ?e = ''nan''"
    by (simp_all add: rating_field_def post_form_def get_default_def strip_nan)
  have g: "get_or_404 decimal_key [dune] ''1'' = Some dune" by (simp add: eval_defs)
  show ?thesis
    using fa fe g
      nan_passes_checks_and_fails_commit[of ?a "[dune]" True "''1''" decimal_key dune]
      nan_passes_checks_and_fails_commit[of ?e "[dune]" True "''1''" decimal_key dune]
    by (simp add: dune_def)
qed

subsection \<open>Where a POST to edit ends\<close>

text \<open>
  C6, as stated, fails: a POST to edit with a resolving identifier and a rating text that is
  not a number ends with the edit form, not with a redirect.
\<close>

theorem edit_invalid_rating_shows_form:
  "response_of (edit decimal_key [dune] (post_form [(''id'', ''1''), (''rating'', ''abc'')]) True)
     = Render ''edit_rating.html'' (OneBook dune)
   \<and> response_of (edit decimal_key [dune] (post_form [(''id'', ''1''), (''rating'', ''abc'')]) True)
     \<noteq> Redirect ''/''"
  by (simp add: edit_def eval_defs strip_abc float_abc)

text \<open>
  C6, amended. A POST to edit redirects to the list view \<open>/\<close> when the identifier is missing
  or empty (with the message "Invalid book ID.") and when the identifier resolves and the rating
  text parses to a number in the range, whether the commit succeeds or not. When the identifier
  resolves and the rating text is empty, does not parse, or parses to a number below 0 or above
  10, the edit form of that record is shown again and the table is as it was. When the
  identifier resolves to no record the request ends with the not-found abort.
\<close>

theorem edit_post_response:
  assumes "req_method req = POST"
  shows "((form req ''id'' = None \<or> form req ''id'' = Some []) \<longrightarrow>
            edit key rows req c = (rows, Redirect ''/'', [(''Invalid book ID.'', ''error'')]))
       \<and> (form req ''id'' = Some ident \<and> ident \<noteq> [] \<and> get_or_404 key rows ident = None \<longrightarrow>
            response_of (edit key rows req c) = Abort 404)
       \<and> (form req ''id'' = Some ident \<and> ident \<noteq> [] \<and> get_or_404 key rows ident = Some b \<longrightarrow>
            (py_float (rating_field req) = Some r \<and> in_range r \<longrightarrow>
               response_of (edit key rows req c) = Redirect ''/'')
          \<and> (rating_field req = [] \<or> py_float (rating_field req) = None
               \<or> (py_float (rating_field req) = Some r \<and> (float_lt r 0 \<or> float_gt r 10)) \<longrightarrow>
               response_of (edit key rows req c) = Render ''edit_rating.html'' (OneBook b)
               \<and> table_of (edit key rows req c) = rows))"
proof -
  have ok: "in_range r \<Longrightarrow> \<not> float_lt r 0 \<and> \<not> float_gt r 10"
    using in_range_accepted by blast
  have ne: "py_float (rating_field req) = Some r \<Longrightarrow> rating_field req \<noteq> []"
    by (rule float_nonempty)
  show ?thesis
    using assms ok ne
    by (auto simp add: edit_def Let_def rating_field_def response_of_def table_of_def
        url_for_home_def)
qed

text \<open>A rating above the range, a rating in the range with a failing commit, no identifier,
  and an identifier that resolves to nothing.\<close>

theorem edit_post_response_witness:
  "req_method (post_form [(''id'', ''1''), (''rating'', ''11'')]) = POST
   \<and> get_or_404 decimal_key [dune] ''1'' = Some dune
   \<and> py_float (rating_field (post_form [(''id'', ''1''), (''rating'', ''11'')])) = Some (Finite 11)
   \<and> float_gt (Finite 11) 10
   \<and> response_of (edit decimal_key [dune] (post_form [(''id'', ''1''), (''rating'', ''11'')]) True)
       = Render ''edit_rating.html'' (OneBook dune)
   \<and> py_float (rating_field (post_form [(''id'', ''1''), (''rating'', ''7'')])) = Some (Finite 7)
   \<and> in_range (Finite 7)
   \<and> response_of (edit decimal_key [dune] (post_form [(''id'', ''1''), (''rating'', ''7'')]) False)
       = Redirect ''/''
   \<and> edit decimal_key [dune] (post_form [(''rating'', ''7'')]) True
       = ([dune], Redirect ''/'', [(''Invalid book ID.'', ''error'')])
   \<and> get_or_404 decimal_key [dune] ''7'' = None
   \<and> response_of (edit decimal_key [dune] (post_form [(''id'', ''7''), (''rating'', ''7'')]) True)
       = Abort 404"
proof -
  let ?hi = "post_form [(''id'', ''1''), (''rating'', ''11'')]"
  let ?ok = "post_form [(''id'', ''1''), (''rating'', ''7'')]"
  let ?no = "post_form [(''rating'', ''7'')]"
  let ?un = "post_form [(''id'', ''7''), (''rating'', ''7'')]"
  have m: "req_method ?hi = POST" "req_method ?ok = POST" "req_method ?no = POST"
    "req_method ?un = POST"
    by (simp_all add: post_form_def)
  have i: "form ?hi ''id'' = Some ''1''" "form ?ok ''id'' = Some ''1''" "form ?no ''id'' = None"
    "form ?un ''id'' = Some ''7''"
    by (simp_all add: post_form_def)
  have f: "py_float (rating_field ?hi) = Some (Finite 11)"
    "py_float (rating_field ?ok) = Some (Finite 7)"
    by (simp_all add: rating_field_def post_form_def get_default_def strip_11 strip_7 float_11
        float_7)
  have g: "get_or_404 decimal_key [dune] ''1'' = Some dune"
    "get_or_404 decimal_key [dune] ''7'' = None"
    by (simp_all add: eval_defs)
  show ?thesis
    using m i f g
      edit_post_response[OF m(1), where ident = "''1''" and key = decimal_key
        and rows = "[dune]" and c = True and b = dune and r = "Finite 11"]
      edit_post_response[OF m(2), where ident = "''1''" and key = decimal_key
        and rows = "[dune]" and c = False and b = dune and r = "Finite 7"]
      edit_post_response[OF m(3), where ident = "''1''" and key = decimal_key
        and rows = "[dune]" and c = True and b = dune and r = "Finite 7"]
      edit_post_response[OF m(4), where ident = "''7''" and key = decimal_key
        and rows = "[dune]" and c = True and b = dune and r = "Finite 7"]
    by simp
qed

end
